theory Spec2Isabelle
  imports Complex_Main
begin

section \<open>Errors\<close>

text \<open>
  The Python exceptions that the modelled functions can raise. A function that may raise
  returns \<open>error + 'a\<close>, with \<open>Inl\<close> for the exception.
\<close>

datatype error =
  KeyError | IndexError | ZeroDivisionError | ValueError | OverflowError | WriterError
  | LockError

text \<open>Sequencing: the second computation runs only when the first did not raise.\<close>

definition and_then :: "error + 'a \<Rightarrow> ('a \<Rightarrow> error + 'b) \<Rightarrow> error + 'b" where
  "and_then m f = (case m of Inl e \<Rightarrow> Inl e | Inr v \<Rightarrow> f v)"

section \<open>Python string primitives\<close>

text \<open>
  Strings are lists of 8-bit characters and stand for ASCII text; \<open>str.lower\<close> is
  modelled on the ASCII letters (code points 65 to 90 get bit 5 set), which is what it
  does on ASCII text. Its mapping of letters beyond ASCII is outside the model.
\<close>

definition lower_char :: "char \<Rightarrow> char" where
  "lower_char c =
     (let n = (of_char c :: nat)
      in if 65 \<le> n \<and> n \<le> 90
         then (case c of Char b0 b1 b2 b3 b4 b5 b6 b7 \<Rightarrow> Char b0 b1 b2 b3 b4 True b6 b7)
         else c)"

definition lower :: "string \<Rightarrow> string" where
  "lower s = map lower_char s"

text \<open>\<open>s.startswith(p)\<close>.\<close>

fun startswith :: "string \<Rightarrow> string \<Rightarrow> bool" where
  "startswith s [] = True"
| "startswith [] (p # ps) = False"
| "startswith (c # cs) (p # ps) = (c = p \<and> startswith cs ps)"

text \<open>\<open>sub in s\<close>: \<open>sub\<close> occurs in \<open>s\<close> as a contiguous substring.\<close>

fun py_in :: "string \<Rightarrow> string \<Rightarrow> bool" where
  "py_in sub [] = (sub = [])"
| "py_in sub (c # cs) = (startswith (c # cs) sub \<or> py_in sub cs)"






section \<open>Ranking engine (components/ranking.py)\<close>

text \<open>
  Floats are modelled as real numbers: the scores are the exact values of the formulas
  that the code evaluates in double precision. \<open>self.weights\<close> is a dictionary from
  weight name to number; the only state of a \<open>SearchRanking\<close> object is this dictionary.
\<close>

type_synonym weights = "string \<rightharpoonup> real"

definition init_weights :: weights where
  "init_weights =
     [''title_match'' \<mapsto> 3, ''content_match'' \<mapsto> 1, ''meta_description_match'' \<mapsto> 2,
      ''heading_match'' \<mapsto> 5 / 2, ''url_match'' \<mapsto> 3 / 2, ''freshness'' \<mapsto> 1,
      ''content_length'' \<mapsto> 1 / 2, ''depth_penalty'' \<mapsto> - (1 / 5)]"

text \<open>\<open>self.weights.update(new_weights)\<close>: every key of \<open>new_weights\<close> is stored, the
  other keys keep their value.\<close>

definition update_weights :: "weights \<Rightarrow> weights \<Rightarrow> weights" where
  "update_weights ws new_weights = ws ++ new_weights"

text \<open>\<open>self.weights.copy()\<close>: in a model without aliasing the copy is the dictionary.\<close>

definition get_weights :: "weights \<Rightarrow> weights" where
  "get_weights ws = ws"


text \<open>The body of the loop of \<open>calculate_title_score\<close>: the score after one more term.\<close>

definition title_step :: "string \<Rightarrow> int \<Rightarrow> string \<Rightarrow> int" where
  "title_step title_lower score term =
     (let term_lower = lower term
      in if py_in term_lower title_lower
         then (if term_lower = title_lower then score + 10
               else if py_in (CHR '' '' # term_lower @ '' '') (CHR '' '' # title_lower @ '' '')
                    then score + 5
               else score + 2)
         else score)"

definition calculate_title_score :: "string list \<Rightarrow> string \<Rightarrow> int" where
  "calculate_title_score query_terms title =
     (if title = [] then 0
      else foldl (title_step (lower title)) 0 query_terms)"







definition calculate_content_length_score :: "int \<Rightarrow> real" where
  "calculate_content_length_score content_length =
     (if content_length = 0 then 0
      else
        (let optimal_length = (1500 :: int)
         in if content_length < 100 then 1 / 10
            else if content_length > 10000 then 3 / 10
            else
              (let diff = \<bar>content_length - optimal_length\<bar>
               in exp (- real_of_int (diff ^ 2) / (2 * (real_of_int optimal_length / 2) ^ 2)))))"










section \<open>Python numbers and dates\<close>

definition is_digit :: "char \<Rightarrow> bool" where
  "is_digit c = (let n = (of_char c :: nat) in 48 \<le> n \<and> n \<le> 57)"

definition digit_value :: "char \<Rightarrow> nat" where
  "digit_value c = (of_char c :: nat) - 48"

text \<open>The whitespace that \<open>int\<close> skips around a literal is that of C's \<open>isspace\<close>: 9 to
  13 and the space, not the separators 28 to 31 that \<open>str.split\<close> also splits at.\<close>

definition c_isspace :: "char \<Rightarrow> bool" where
  "c_isspace c = (let n = (of_char c :: nat) in (9 \<le> n \<and> n \<le> 13) \<or> n = 32)"

definition int_strip :: "string \<Rightarrow> string" where
  "int_strip s = rev (dropWhile c_isspace (rev (dropWhile c_isspace s)))"

text \<open>The digits of an integer literal: a digit first and last, and single underscores
  only between digits.\<close>

fun digits_ok :: "string \<Rightarrow> bool" where
  "digits_ok [] = False"
| "digits_ok [c] = is_digit c"
| "digits_ok (c # d # cs) =
     (is_digit c \<and> (if d = CHR ''_'' then digits_ok cs else digits_ok (d # cs)))"

definition digits_to_nat :: "string \<Rightarrow> nat" where
  "digits_to_nat ds = foldl (\<lambda>acc c. 10 * acc + digit_value c) 0 ds"

text \<open>\<open>int(s)\<close> on an ASCII string: surrounding whitespace is dropped, one sign is
  allowed, and anything but a decimal literal raises ValueError.\<close>

definition py_int :: "string \<Rightarrow> error + int" where
  "py_int s =
     (let t = int_strip s;
          negative = (t \<noteq> [] \<and> hd t = CHR ''-'');
          body = (if t \<noteq> [] \<and> (hd t = CHR ''-'' \<or> hd t = CHR ''+'') then tl t else t)
      in if digits_ok body
         then Inr ((if negative then - 1 else 1) * int (digits_to_nat (filter (\<lambda>c. c \<noteq> CHR ''_'') body)))
         else Inl ValueError)"

text \<open>A naive \<open>datetime\<close> value.\<close>

record datetime =
  dt_year :: nat
  dt_month :: nat
  dt_day :: nat
  dt_hour :: nat
  dt_minute :: nat
  dt_second :: nat
  dt_microsecond :: nat

definition is_leap :: "nat \<Rightarrow> bool" where
  "is_leap y = (y mod 4 = 0 \<and> (y mod 100 \<noteq> 0 \<or> y mod 400 = 0))"

definition days_in_month :: "nat \<Rightarrow> nat \<Rightarrow> nat" where
  "days_in_month y m =
     (if m = 2 then (if is_leap y then 29 else 28)
      else if m = 4 \<or> m = 6 \<or> m = 9 \<or> m = 11 then 30
      else 31)"

text \<open>\<open>d + timedelta(days=1)\<close>: the same time on the next calendar day; past the last day
  of the year 9999 the addition raises OverflowError.\<close>

definition add_one_day :: "datetime \<Rightarrow> error + datetime" where
  "add_one_day d =
     (if dt_day d < days_in_month (dt_year d) (dt_month d) then Inr (d\<lparr>dt_day := dt_day d + 1\<rparr>)
      else if dt_month d < 12 then Inr (d\<lparr>dt_month := dt_month d + 1, dt_day := 1\<rparr>)
      else if dt_year d < 9999 then Inr (d\<lparr>dt_year := dt_year d + 1, dt_month := 1, dt_day := 1\<rparr>)
      else Inl OverflowError)"

text \<open>\<open>d.replace(hour=h, minute=m, second=0, microsecond=0)\<close> raises ValueError when the
  hour or the minute is out of range.\<close>

definition replace_time :: "datetime \<Rightarrow> int \<Rightarrow> int \<Rightarrow> error + datetime" where
  "replace_time d h m =
     (if 0 \<le> h \<and> h \<le> 23 \<and> 0 \<le> m \<and> m \<le> 59
      then Inr (d\<lparr>dt_hour := nat h, dt_minute := nat m, dt_second := 0, dt_microsecond := 0\<rparr>)
      else Inl ValueError)"

definition digit_char :: "nat \<Rightarrow> char" where
  "digit_char n = ''0123456789'' ! (n mod 10)"

text \<open>\<open>'%02d' % n\<close> for \<open>n < 100\<close>, and the wider fields likewise.\<close>

definition pad2 :: "nat \<Rightarrow> string" where
  "pad2 n = [digit_char (n div 10), digit_char n]"

definition pad4 :: "nat \<Rightarrow> string" where
  "pad4 n = [digit_char (n div 1000), digit_char (n div 100), digit_char (n div 10), digit_char n]"

definition pad6 :: "nat \<Rightarrow> string" where
  "pad6 n = [digit_char (n div 100000), digit_char (n div 10000), digit_char (n div 1000),
             digit_char (n div 100), digit_char (n div 10), digit_char n]"

text \<open>\<open>d.isoformat()\<close>: the microseconds are printed only when they are not zero.\<close>

definition isoformat :: "datetime \<Rightarrow> string" where
  "isoformat d =
     pad4 (dt_year d) @ ''-'' @ pad2 (dt_month d) @ ''-'' @ pad2 (dt_day d) @ ''T''
     @ pad2 (dt_hour d) @ '':'' @ pad2 (dt_minute d) @ '':'' @ pad2 (dt_second d)
     @ (if dt_microsecond d = 0 then [] else ''.'' @ pad6 (dt_microsecond d))"

section \<open>Job scheduler (components/scheduler.py)\<close>

text \<open>
  A crawl job is a dictionary with a fixed set of keys; the scheduler's state that the
  operations below change is the list \<open>self.crawl_jobs\<close>. Writing the list to the
  configuration file (\<open>save_configuration\<close>) changes nothing in memory and swallows its
  own errors. The first argument of each operation that reads the clock is the value of
  \<open>datetime.now()\<close>.
\<close>

record crawl_job =
  job_id :: int
  job_name :: string
  job_seed_urls :: "string list"
  job_schedule_type :: string
  job_schedule_time :: string
  job_max_pages :: nat
  job_max_depth :: nat
  job_created_at :: string
  job_last_run :: "string option"
  job_next_run :: "string option"
  job_status :: string

definition add_crawl_job ::
  "datetime \<Rightarrow> crawl_job list \<Rightarrow> string \<Rightarrow> string list \<Rightarrow> string \<Rightarrow> string \<Rightarrow> nat \<Rightarrow> nat
   \<Rightarrow> int \<times> crawl_job list" where
  "add_crawl_job now crawl_jobs name seed_urls schedule_type schedule_time max_pages max_depth =
     (let job = \<lparr>job_id = int (length crawl_jobs) + 1, job_name = name,
                 job_seed_urls = seed_urls, job_schedule_type = schedule_type,
                 job_schedule_time = schedule_time, job_max_pages = max_pages,
                 job_max_depth = max_depth, job_created_at = isoformat now,
                 job_last_run = None, job_next_run = None, job_status = ''scheduled''\<rparr>
      in (job_id job, crawl_jobs @ [job]))"

definition remove_crawl_job :: "crawl_job list \<Rightarrow> int \<Rightarrow> crawl_job list" where
  "remove_crawl_job crawl_jobs jid = filter (\<lambda>job. job_id job \<noteq> jid) crawl_jobs"

text \<open>An optional string argument is true when it is given and not empty.\<close>

definition truthy :: "string option \<Rightarrow> bool" where
  "truthy v = (case v of None \<Rightarrow> False | Some s \<Rightarrow> s \<noteq> [])"

text \<open>The next run of a daily job; every exception of the \<open>try\<close> block is an \<open>Inl\<close>.\<close>

definition daily_next_run :: "datetime \<Rightarrow> string \<Rightarrow> error + datetime" where
  "daily_next_run now schedule_time =
     and_then (add_one_day now) (\<lambda>next_run_time.
     and_then (py_int (take 2 schedule_time)) (\<lambda>h.
     and_then (py_int (drop 3 schedule_time)) (\<lambda>m.
       replace_time next_run_time h m)))"

text \<open>The body of the loop of \<open>update_job_status\<close> for the job whose id matches.\<close>

definition update_job ::
  "datetime \<Rightarrow> string \<Rightarrow> string option \<Rightarrow> string option \<Rightarrow> crawl_job \<Rightarrow> crawl_job" where
  "update_job now status last_run next_run job =
     (let job1 = job\<lparr>job_status := status\<rparr>;
          job2 = (if truthy last_run then job1\<lparr>job_last_run := last_run\<rparr> else job1)
      in if truthy next_run then job2\<lparr>job_next_run := next_run\<rparr>
         else if status = ''completed'' \<and> job_schedule_type job2 = ''daily''
         then (case daily_next_run now (job_schedule_time job2) of
                 Inr next_run_time \<Rightarrow>
                   job2\<lparr>job_next_run := Some (isoformat next_run_time), job_status := ''scheduled''\<rparr>
               | Inl e \<Rightarrow> job2)
         else job2)"

text \<open>The loop stops (\<open>break\<close>) at the first job with the id.\<close>

fun update_job_status ::
  "datetime \<Rightarrow> crawl_job list \<Rightarrow> int \<Rightarrow> string \<Rightarrow> string option \<Rightarrow> string option
   \<Rightarrow> crawl_job list" where
  "update_job_status now [] jid status last_run next_run = []"
| "update_job_status now (job # jobs) jid status last_run next_run =
     (if job_id job = jid then update_job now status last_run next_run job # jobs
      else job # update_job_status now jobs jid status last_run next_run)"

text \<open>The instant and the job of the specification's scenario: a daily job with the
  schedule time \<open>02:00\<close>, completed at 2024-01-01T10:00:00.\<close>

definition morning_2024 :: datetime where
  "morning_2024 = \<lparr>dt_year = 2024, dt_month = 1, dt_day = 1, dt_hour = 10, dt_minute = 0,
                    dt_second = 0, dt_microsecond = 0\<rparr>"

definition nightly_job :: crawl_job where
  "nightly_job = \<lparr>job_id = 1, job_name = ''nightly'', job_seed_urls = [''https://a.test''],
     job_schedule_type = ''daily'', job_schedule_time = ''02:00'', job_max_pages = 100,
     job_max_depth = 3, job_created_at = ''2023-12-31T09:00:00'', job_last_run = None,
     job_next_run = None, job_status = ''running''\<rparr>"

section \<open>Index store (components/indexer.py)\<close>

text \<open>
  A parsed page is the dictionary that the parser returns. The indexer reads \<open>url\<close> with
  \<open>parsed_page['url']\<close>, which raises KeyError when the key is absent, and every other
  key with \<open>get\<close> and a default; so only the URL is optional here.
\<close>

record parsed_page =
  pp_url :: "string option"
  pp_title :: string
  pp_meta_description :: string
  pp_content :: string
  pp_headings :: "(nat \<times> string) list"
  pp_crawl_time :: real
  pp_depth :: nat
  pp_content_length :: int

record index_record =
  rec_url :: string
  rec_title :: string
  rec_content :: string
  rec_meta_description :: string
  rec_headings :: string
  rec_content_length :: int
  rec_crawl_time :: real
  rec_depth :: nat

text \<open>\<open>sep.join(xs)\<close>.\<close>

fun join :: "string \<Rightarrow> string list \<Rightarrow> string" where
  "join sep [] = []"
| "join sep [x] = x"
| "join sep (x # y # ys) = x @ sep @ join sep (y # ys)"

text \<open>
  The index library (Whoosh) is not part of the repository; its index and writer are
  modelled by what the library does on the calls the indexer makes. A committed index is
  the list of its records, or it cannot be read any more. What the library and the
  platform may refuse is a parameter of the model: whether opening a writer raises (the
  index is locked), for which crawl times \<open>datetime.fromtimestamp\<close> raises, which records
  the writer's \<open>add_document\<close> raises on, and whether \<open>commit\<close> raises.
\<close>

datatype index_state = Index "index_record list" | Unreadable

record library =
  lib_open_raises :: bool
  lib_timestamp_raises :: "real \<Rightarrow> bool"
  lib_add_raises :: "index_record \<Rightarrow> bool"
  lib_commit_raises :: bool

text \<open>
  A writer buffers the records added through it and the URLs whose committed records
  \<open>delete_by_term\<close> marked. \<open>add_document\<close> only appends, also for a field declared
  unique. When it raises on a record it has begun the document and does not end it: the
  writer stays inside that document, every later \<open>add_document\<close> raises as well, and a
  commit of such a writer leaves an index that cannot be read. Otherwise \<open>commit\<close> drops
  the marked records and appends the buffer; \<open>cancel\<close> leaves the committed index as it
  was. An index that cannot be read stays so.
\<close>

record writer =
  w_deleted :: "string list"
  w_added :: "index_record list"
  w_in_doc :: bool

definition new_writer :: writer where
  "new_writer = \<lparr>w_deleted = [], w_added = [], w_in_doc = False\<rparr>"

definition writer_delete_by_term :: "writer \<Rightarrow> string \<Rightarrow> writer" where
  "writer_delete_by_term w u = w\<lparr>w_deleted := u # w_deleted w\<rparr>"

definition writer_add_document :: "library \<Rightarrow> writer \<Rightarrow> index_record \<Rightarrow> error option \<times> writer" where
  "writer_add_document lib w r =
     (if w_in_doc w then (Some WriterError, w)
      else if lib_add_raises lib r then (Some WriterError, w\<lparr>w_in_doc := True\<rparr>)
      else (None, w\<lparr>w_added := w_added w @ [r]\<rparr>))"

fun writer_commit :: "index_state \<Rightarrow> writer \<Rightarrow> index_state" where
  "writer_commit Unreadable w = Unreadable"
| "writer_commit (Index rs) w =
     (if w_in_doc w then Unreadable
      else Index (filter (\<lambda>r. rec_url r \<notin> set (w_deleted w)) rs @ w_added w))"

text \<open>The keyword arguments that \<open>add_document\<close> passes to the writer.\<close>

definition page_record :: "string \<Rightarrow> parsed_page \<Rightarrow> index_record" where
  "page_record u parsed_page =
     (let headings_text = join '' '' (map snd (pp_headings parsed_page))
      in \<lparr>rec_url = u, rec_title = pp_title parsed_page,
          rec_content = pp_content parsed_page,
          rec_meta_description = pp_meta_description parsed_page,
          rec_headings = headings_text,
          rec_content_length = pp_content_length parsed_page,
          rec_crawl_time = pp_crawl_time parsed_page,
          rec_depth = pp_depth parsed_page\<rparr>)"

text \<open>
  The body of the \<open>try\<close> block of \<open>add_document\<close>: the exception it raises, if any, and
  the writer afterwards. The crawl time is converted first, then the arguments are
  evaluated, \<open>parsed_page['url']\<close> first of them, and then the writer is called.
\<close>

definition try_add_document :: "library \<Rightarrow> writer \<Rightarrow> parsed_page \<Rightarrow> error option \<times> writer" where
  "try_add_document lib w parsed_page =
     (if lib_timestamp_raises lib (pp_crawl_time parsed_page) then (Some ValueError, w)
      else (case pp_url parsed_page of
              None \<Rightarrow> (Some KeyError, w)
            | Some u \<Rightarrow> writer_add_document lib w (page_record u parsed_page)))"

text \<open>\<open>add_document\<close>: \<open>except Exception\<close> logs the error and returns normally.\<close>

definition add_document :: "library \<Rightarrow> writer \<Rightarrow> parsed_page \<Rightarrow> writer" where
  "add_document lib w parsed_page = snd (try_add_document lib w parsed_page)"

text \<open>
  \<open>index_pages\<close> and \<open>update_document\<close> return the exception that propagates, if any,
  and the committed index afterwards. The writer is opened before the \<open>try\<close>; an
  exception of the commit reaches the handler, which cancels the writer and raises again.
\<close>

definition index_pages ::
  "library \<Rightarrow> index_state \<Rightarrow> parsed_page list \<Rightarrow> error option \<times> index_state" where
  "index_pages lib idx parsed_pages =
     (if lib_open_raises lib then (Some LockError, idx)
      else
        (let w = foldl (add_document lib) new_writer parsed_pages
         in if lib_commit_raises lib then (Some WriterError, idx)
            else (None, writer_commit idx w)))"

definition update_document ::
  "library \<Rightarrow> index_state \<Rightarrow> parsed_page \<Rightarrow> error option \<times> index_state" where
  "update_document lib idx parsed_page =
     (if lib_open_raises lib then (Some LockError, idx)
      else
        (case pp_url parsed_page of
           None \<Rightarrow> (Some KeyError, idx)
         | Some u \<Rightarrow>
             (let w = add_document lib (writer_delete_by_term new_writer u) parsed_page
              in if lib_commit_raises lib then (Some WriterError, idx)
                 else (None, writer_commit idx w))))"

text \<open>The records of the pages of a batch that reach the writer, in the order of the
  batch: the pages whose crawl time converts and that have a URL.\<close>

definition added_records :: "library \<Rightarrow> parsed_page list \<Rightarrow> index_record list" where
  "added_records lib parsed_pages =
     List.map_filter
       (\<lambda>p. if lib_timestamp_raises lib (pp_crawl_time p) then None
            else map_option (\<lambda>u. page_record u p) (pp_url p))
       parsed_pages"

text \<open>A library and platform that refuse nothing.\<close>

definition quiet_library :: library where
  "quiet_library = \<lparr>lib_open_raises = False, lib_timestamp_raises = (\<lambda>t. False),
     lib_add_raises = (\<lambda>r. False), lib_commit_raises = False\<rparr>"

text \<open>Two pages of one URL, an older and a newer crawl, and a page without the URL key.\<close>

definition page_v1 :: parsed_page where
  "page_v1 = \<lparr>pp_url = Some ''https://a.test'', pp_title = ''A'', pp_meta_description = [],
     pp_content = ''first text'', pp_headings = [], pp_crawl_time = 100, pp_depth = 0,
     pp_content_length = 10\<rparr>"

definition page_v2 :: parsed_page where
  "page_v2 = \<lparr>pp_url = Some ''https://a.test'', pp_title = ''A'', pp_meta_description = [],
     pp_content = ''second text'', pp_headings = [], pp_crawl_time = 200, pp_depth = 0,
     pp_content_length = 11\<rparr>"

definition page_no_url :: parsed_page where
  "page_no_url = \<lparr>pp_url = None, pp_title = ''B'', pp_meta_description = [],
     pp_content = ''other text'', pp_headings = [], pp_crawl_time = 100, pp_depth = 0,
     pp_content_length = 10\<rparr>"

section \<open>Fetcher (components/crawler.py)\<close>

text \<open>
  What one call of \<open>crawl_page\<close> meets on the network: robots.txt forbids the URL, the
  request fails, the answer is not HTML, or an HTML page arrives; the page carries its
  text, the absolute HTTP links that \<open>extract_links\<close> finds in it, and the value of
  \<open>time.time()\<close>. The network is a function of the number of requests made so far and
  of the URL, so that the same URL may answer differently at different times.
\<close>

datatype fetch_result = RobotsDisallow | FetchError | NotHtml | Html string "string list" real

type_synonym web = "nat \<Rightarrow> string \<Rightarrow> fetch_result"

record page_data =
  pd_url :: string
  pd_title :: string
  pd_content :: string
  pd_links :: "string list"
  pd_depth :: nat
  pd_crawl_time :: real

text \<open>The fields of a \<open>WebCrawler\<close> object, and the model's count of requests. The
  page limit, the depth limit and the depths are counts, hence natural numbers.\<close>

record crawler =
  max_pages :: nat
  delay :: nat
  max_depth :: nat
  visited_urls :: "string set"
  url_queue :: "(string \<times> nat) list"
  crawled_pages :: "page_data list"
  requests_made :: nat

text \<open>\<open>WebCrawler.__init__\<close>.\<close>

definition WebCrawler :: "nat \<Rightarrow> nat \<Rightarrow> nat \<Rightarrow> crawler" where
  "WebCrawler mp dl md =
     \<lparr>max_pages = mp, delay = dl, max_depth = md, visited_urls = {}, url_queue = [],
      crawled_pages = [], requests_made = 0\<rparr>"

text \<open>\<open>crawl_page\<close>; its return value is not used by \<open>crawl\<close>, the state is.\<close>

definition crawl_page :: "web \<Rightarrow> crawler \<Rightarrow> string \<Rightarrow> nat \<Rightarrow> crawler" where
  "crawl_page web c url depth =
     (if url \<in> visited_urls c \<or> length (crawled_pages c) \<ge> max_pages c \<or> depth > max_depth c
      then c
      else (case web (requests_made c) url of
              Html text links t \<Rightarrow>
                c\<lparr>visited_urls := insert url (visited_urls c),
                  url_queue := url_queue c @
                    map (\<lambda>link. (link, depth + 1))
                      (filter (\<lambda>link. link \<notin> insert url (visited_urls c)) links),
                  crawled_pages := crawled_pages c @
                    [\<lparr>pd_url = url, pd_title = [], pd_content = text, pd_links = links,
                      pd_depth = depth, pd_crawl_time = t\<rparr>],
                  requests_made := requests_made c + 1\<rparr>
            | _ \<Rightarrow> c\<lparr>requests_made := requests_made c + 1\<rparr>))"

text \<open>The \<open>while\<close> loop of \<open>crawl\<close>.\<close>

function crawl_loop :: "web \<Rightarrow> crawler \<Rightarrow> crawler" where
  "crawl_loop web c =
     (case url_queue c of
        [] \<Rightarrow> c
      | (url, depth) # rest \<Rightarrow>
          if length (crawled_pages c) < max_pages c
          then crawl_loop web
                 (if url \<notin> visited_urls c then crawl_page web (c\<lparr>url_queue := rest\<rparr>) url depth
                  else c\<lparr>url_queue := rest\<rparr>)
          else c)"
  by pat_completeness auto
termination
  apply (relation "inv_image (less_than <*lex*> less_than)
           (\<lambda>(web, c). (max_pages c - length (crawled_pages c), length (url_queue c)))")
   apply (intro wf_inv_image wf_lex_prod wf_less_than)
  apply (auto simp: crawl_page_def split: fetch_result.splits)
  done

declare crawl_loop.simps [simp del]

text \<open>\<open>crawl\<close> returns the list \<open>self.crawled_pages\<close>; the second component is the
  crawler object afterwards.\<close>

definition crawl :: "web \<Rightarrow> crawler \<Rightarrow> string list \<Rightarrow> page_data list \<times> crawler" where
  "crawl web c seed_urls =
     (let c' = crawl_loop web (c\<lparr>url_queue := url_queue c @ map (\<lambda>url. (url, 0)) seed_urls\<rparr>)
      in (crawled_pages c', c'))"

section \<open>Content extractor (components/parser.py)\<close>

text \<open>
  The HTML library is not part of the repository: what \<open>BeautifulSoup\<close> and the
  \<open>extract_*\<close> functions make of a page text is a parameter, \<open>None\<close> when they raise.
  \<open>parse_page\<close> copies the URL, the crawl time and the depth from the crawled page.
\<close>

record extracted =
  ex_title :: string
  ex_meta_description :: string
  ex_content :: string
  ex_headings :: "(nat \<times> string) list"

type_synonym soup = "string \<Rightarrow> extracted option"

definition parse_page :: "soup \<Rightarrow> page_data \<Rightarrow> parsed_page option" where
  "parse_page soup pd =
     (case soup (pd_content pd) of
        None \<Rightarrow> None
      | Some ex \<Rightarrow>
          Some \<lparr>pp_url = Some (pd_url pd), pp_title = ex_title ex,
                pp_meta_description = ex_meta_description ex, pp_content = ex_content ex,
                pp_headings = ex_headings ex, pp_crawl_time = pd_crawl_time pd,
                pp_depth = pd_depth pd, pp_content_length = int (length (ex_content ex))\<rparr>)"

definition parse_pages :: "soup \<Rightarrow> page_data list \<Rightarrow> parsed_page list" where
  "parse_pages soup crawled = List.map_filter (parse_page soup) crawled"

section \<open>Pipeline facade (search_engine.py)\<close>

text \<open>\<open>find_or_create_manual_job\<close> of the scheduler; \<open>seed_urls[0]\<close> raises IndexError on
  an empty list.\<close>

definition find_or_create_manual_job ::
  "datetime \<Rightarrow> crawl_job list \<Rightarrow> string list \<Rightarrow> nat \<Rightarrow> nat \<Rightarrow> error + int \<times> crawl_job list" where
  "find_or_create_manual_job now crawl_jobs seed_urls mp md =
     (case find (\<lambda>job. set (job_seed_urls job) = set seed_urls
                        \<and> job_max_pages job = mp \<and> job_max_depth job = md) crawl_jobs of
        Some job \<Rightarrow> Inr (job_id job, crawl_jobs)
      | None \<Rightarrow>
          (case seed_urls of
             [] \<Rightarrow> Inl IndexError
           | u # _ \<Rightarrow>
               (let job_name = (if length u > 50 then ''Manual Crawl - '' @ take 50 u @ ''...''
                                else ''Manual Crawl - '' @ u)
                in Inr (add_crawl_job now crawl_jobs job_name seed_urls ''manual'' ''00:00'' mp md))))"

text \<open>
  The objects that a \<open>SearchEngine\<close> holds: one crawler, made once in \<open>__init__\<close>, the
  index, the scheduler's job list and the ranking weights. The environment of a call is
  the network, the HTML library, the index library and the clock.
\<close>

record search_engine =
  se_crawler :: crawler
  se_index :: index_state
  se_jobs :: "crawl_job list"
  se_weights :: weights

record environment =
  env_web :: web
  env_soup :: soup
  env_library :: library
  env_now :: datetime

text \<open>\<open>SearchEngine.__init__\<close>, given the index and the job list found on disk.\<close>

definition SearchEngine :: "index_state \<Rightarrow> crawl_job list \<Rightarrow> search_engine" where
  "SearchEngine idx jobs =
     \<lparr>se_crawler = WebCrawler 100 1 3, se_index = idx, se_jobs = jobs, se_weights = init_weights\<rparr>"

text \<open>\<open>crawl_and_index\<close>: the result and the engine afterwards. An exception before the
  job id is known returns False and marks no job.\<close>

definition crawl_and_index ::
  "environment \<Rightarrow> search_engine \<Rightarrow> string list \<Rightarrow> nat \<Rightarrow> nat \<Rightarrow> bool \<times> search_engine" where
  "crawl_and_index env se seed_urls mp md =
     (let now = env_now env
      in case find_or_create_manual_job now (se_jobs se) seed_urls mp md of
           Inl e \<Rightarrow> (False, se)
         | Inr (jid, jobs1) \<Rightarrow>
     (let jobs2 = update_job_status now jobs1 jid ''running'' (Some (isoformat now)) None;
          c1 = (se_crawler se)\<lparr>max_pages := mp, max_depth := md\<rparr>;
          (crawled, c2) = crawl (env_web env) c1 seed_urls
      in if crawled = []
         then (False, se\<lparr>se_crawler := c2,
                 se_jobs := update_job_status now jobs2 jid ''failed'' None None\<rparr>)
         else
     (let parsed_pages = parse_pages (env_soup env) crawled
      in if parsed_pages = []
         then (False, se\<lparr>se_crawler := c2,
                 se_jobs := update_job_status now jobs2 jid ''failed'' None None\<rparr>)
         else
           (case index_pages (env_library env) (se_index se) parsed_pages of
              (Some e, idx) \<Rightarrow>
                (False, se\<lparr>se_crawler := c2, se_index := idx,
                   se_jobs := update_job_status now jobs2 jid ''failed'' None None\<rparr>)
            | (None, idx) \<Rightarrow>
                (True, se\<lparr>se_crawler := c2, se_index := idx,
                   se_jobs := update_job_status now jobs2 jid ''completed'' None None\<rparr>)))))"

text \<open>
  A small site: \<open>https://a.test\<close> links to \<open>https://a.test/b\<close> and
  \<open>https://a.test/d\<close>, which have no links; \<open>https://c.test\<close> is a page without
  links; every other URL fails. The HTML library takes the page text as the content.
\<close>

definition small_web :: web where
  "small_web n url =
     (if url = ''https://a.test''
      then Html ''page a'' [''https://a.test/b'', ''https://a.test/d''] 100
      else if url = ''https://a.test/b'' then Html ''page b'' [] 101
      else if url = ''https://a.test/d'' then Html ''page d'' [] 102
      else if url = ''https://c.test'' then Html ''page c'' [] 103
      else FetchError)"

definition small_env :: environment where
  "small_env =
     \<lparr>env_web = small_web,
      env_soup = (\<lambda>text. Some \<lparr>ex_title = ''No Title'', ex_meta_description = [],
                                ex_content = text, ex_headings = []\<rparr>),
      env_library = quiet_library, env_now = morning_2024\<rparr>"

text \<open>The three pages that a crawl of the small site from \<open>https://a.test\<close>
  collects, and the crawler after that crawl with the limits 5 and 2.\<close>

definition page_a :: page_data where
  "page_a = \<lparr>pd_url = ''https://a.test'', pd_title = [], pd_content = ''page a'',
     pd_links = [''https://a.test/b'', ''https://a.test/d''], pd_depth = 0,
     pd_crawl_time = 100\<rparr>"

definition page_b :: page_data where
  "page_b = \<lparr>pd_url = ''https://a.test/b'', pd_title = [], pd_content = ''page b'',
     pd_links = [], pd_depth = 1, pd_crawl_time = 101\<rparr>"

definition page_d :: page_data where
  "page_d = \<lparr>pd_url = ''https://a.test/d'', pd_title = [], pd_content = ''page d'',
     pd_links = [], pd_depth = 1, pd_crawl_time = 102\<rparr>"

definition crawler_after_run :: crawler where
  "crawler_after_run = \<lparr>max_pages = 5, delay = 1, max_depth = 2,
     visited_urls = {''https://a.test'', ''https://a.test/b'', ''https://a.test/d''},
     url_queue = [], crawled_pages = [page_a, page_b, page_d], requests_made = 3\<rparr>"

text \<open>
  The safety property of a crawl as a predicate on the crawler: the collected pages have
  distinct URLs, all of them visited, there are at most \<open>max_pages\<close> of them, and none
  is deeper than \<open>max_depth\<close>.
\<close>

definition crawl_safe :: "crawler \<Rightarrow> bool" where
  "crawl_safe c =
     (distinct (map pd_url (crawled_pages c))
      \<and> set (map pd_url (crawled_pages c)) \<subseteq> visited_urls c
      \<and> length (crawled_pages c) \<le> max_pages c
      \<and> list_all (\<lambda>p. pd_depth p \<le> max_depth c) (crawled_pages c))"

section \<open>The field-match formula as the specification words it\<close>

text \<open>
  The specification's wording of the title, meta-description and heading match, as a
  separate definition to compare \<open>calculate_title_score\<close> with: a term scores 10 when
  the whole field equals it, 5 when it occurs as a word bounded by spaces, 2 when it
  occurs only as a substring and 0 when it is absent, all case-insensitively.
\<close>

definition occurs_in :: "string \<Rightarrow> string \<Rightarrow> bool" where
  "occurs_in sub s = (\<exists>pre post. s = pre @ sub @ post)"

definition field_match_spec :: "string \<Rightarrow> string \<Rightarrow> int" where
  "field_match_spec field term =
     (let f = lower field; t = lower term
      in if f = t then 10
         else if occurs_in ('' '' @ t @ '' '') ('' '' @ f @ '' '') then 5
         else if occurs_in t f then 2
         else 0)"

section \<open>Properties of the ranking engine\<close>

lemma startswith_iff: "startswith s p \<longleftrightarrow> (\<exists>post. s = p @ post)"
  by (induction s p rule: startswith.induct) auto

lemma py_in_iff: "py_in sub s \<longleftrightarrow> occurs_in sub s"
proof (induction s)
  case Nil
  show ?case by (auto simp: occurs_in_def)
next
  case (Cons c cs)
  show ?case
  proof
    assume "py_in sub (c # cs)"
    then consider "startswith (c # cs) sub" | "py_in sub cs" by auto
    then show "occurs_in sub (c # cs)"
    proof cases
      case 1
      then obtain post where "c # cs = sub @ post" by (auto simp: startswith_iff)
      then have "c # cs = [] @ sub @ post" by simp
      then show ?thesis unfolding occurs_in_def by blast
    next
      case 2
      then obtain pre post where "cs = pre @ sub @ post" using Cons by (auto simp: occurs_in_def)
      then have "c # cs = (c # pre) @ sub @ post" by simp
      then show ?thesis unfolding occurs_in_def by blast
    qed
  next
    assume "occurs_in sub (c # cs)"
    then obtain pre post where eq: "c # cs = pre @ sub @ post" by (auto simp: occurs_in_def)
    show "py_in sub (c # cs)"
    proof (cases pre)
      case Nil
      then have "\<exists>post. c # cs = sub @ post" using eq by auto
      then have "startswith (c # cs) sub" unfolding startswith_iff .
      then show ?thesis by simp
    next
      case (Cons p pre')
      then have "cs = pre' @ sub @ post" using eq by simp
      then have "occurs_in sub cs" unfolding occurs_in_def by blast
      then show ?thesis using Cons.IH by simp
    qed
  qed
qed

lemma word_occurs:
  assumes "occurs_in (CHR '' '' # t @ '' '') (CHR '' '' # f @ '' '')"
  shows "occurs_in t f"
proof -
  from assms obtain pre post where eq: "CHR '' '' # f @ '' '' = pre @ (CHR '' '' # t @ '' '') @ post"
    by (auto simp: occurs_in_def)
  show ?thesis
  proof (cases pre)
    case Nil
    then have e1: "f @ '' '' = t @ '' '' @ post" using eq by simp
    show ?thesis
    proof (cases post rule: rev_cases)
      case Nil
      then have "f = [] @ t @ []" using e1 by simp
      then show ?thesis unfolding occurs_in_def by blast
    next
      case (snoc post' x)
      then have "f @ '' '' = (t @ '' '' @ post') @ [x]" using e1 by simp
      then have "f = [] @ t @ ('' '' @ post')" by simp
      then show ?thesis unfolding occurs_in_def by blast
    qed
  next
    case (Cons p pre')
    then have e1: "f @ '' '' = pre' @ CHR '' '' # t @ '' '' @ post" using eq by auto
    show ?thesis
    proof (cases post rule: rev_cases)
      case Nil
      then have "f @ '' '' = (pre' @ CHR '' '' # t) @ '' ''" using e1 by simp
      then have "f = (pre' @ '' '') @ t @ []" by simp
      then show ?thesis unfolding occurs_in_def by blast
    next
      case (snoc post' x)
      then have "f @ '' '' = (pre' @ CHR '' '' # t @ '' '' @ post') @ [x]" using e1 by simp
      then have "f = (pre' @ '' '') @ t @ ('' '' @ post')" by simp
      then show ?thesis unfolding occurs_in_def by blast
    qed
  qed
qed

lemma occurs_in_refl: "occurs_in s s"
proof -
  have "s = [] @ s @ []" by simp
  then show ?thesis unfolding occurs_in_def by blast
qed

lemma title_step_eq:
  "title_step (lower field) score term = score + field_match_spec field term"
  using word_occurs [of "lower term" "lower field"] occurs_in_refl [of "lower term"]
  by (auto simp: title_step_def field_match_spec_def Let_def py_in_iff)

lemma foldl_title_step:
  "foldl (title_step (lower field)) score terms = score + sum_list (map (field_match_spec field) terms)"
  by (induction terms arbitrary: score) (simp_all add: title_step_eq)

lemma lower_Nil_iff: "lower t = [] \<longleftrightarrow> t = []"
  by (simp add: lower_def)

lemma field_match_spec_empty: "t \<noteq> [] \<Longrightarrow> field_match_spec [] t = 0"
  by (auto simp: field_match_spec_def Let_def lower_def occurs_in_def Cons_eq_append_conv)

lemma sum_field_match_empty:
  "[] \<notin> set terms \<Longrightarrow> sum_list (map (field_match_spec []) terms) = 0"
  by (induction terms) (auto simp: field_match_spec_empty)

lemma field_match_spec_le: "lower field \<noteq> lower t \<Longrightarrow> field_match_spec field t \<le> 5"
  by (simp add: field_match_spec_def Let_def)


text \<open>
  Claim C9. For a list of (non-empty) query terms and a text field, the field-match score
  that \<open>calculate_title_score\<close> computes is the sum over the terms of the
  specification's formula: 10 when the whole field equals the term, 5 when the term is a
  word bounded by spaces, 2 when it is only a substring, 0 when it is absent. Hence a
  field that is exactly the single query term scores 10, any other field scores at most
  5, and a field that holds the term only as a substring scores 2. Query terms come from
  \<open>split\<close>, so none of them is empty.
\<close>

theorem title_score_is_field_match:
  assumes "[] \<notin> set query_terms"
  shows "calculate_title_score query_terms field = (\<Sum>t\<leftarrow>query_terms. field_match_spec field t)
    \<and> (t \<noteq> [] \<and> lower field = lower t \<longrightarrow> calculate_title_score [t] field = 10)
    \<and> (lower other \<noteq> lower t \<longrightarrow> calculate_title_score [t] other \<le> 5)
    \<and> (lower other \<noteq> lower t \<and> occurs_in (lower t) (lower other)
         \<and> \<not> occurs_in ('' '' @ lower t @ '' '') ('' '' @ lower other @ '' '')
         \<longrightarrow> calculate_title_score [t] other = 2)"
proof (intro conjI impI)
  show "calculate_title_score query_terms field = (\<Sum>t\<leftarrow>query_terms. field_match_spec field t)"
  proof (cases "field = []")
    case True
    then show ?thesis using assms by (simp add: calculate_title_score_def sum_field_match_empty)
  next
    case False
    then show ?thesis by (simp add: calculate_title_score_def foldl_title_step)
  qed
next
  assume a: "t \<noteq> [] \<and> lower field = lower t"
  then have "field \<noteq> []" using lower_Nil_iff [of field] lower_Nil_iff [of t] by auto
  then show "calculate_title_score [t] field = 10"
    using a by (simp add: calculate_title_score_def title_step_eq field_match_spec_def)
next
  assume a: "lower other \<noteq> lower t"
  show "calculate_title_score [t] other \<le> 5"
    using field_match_spec_le [OF a] by (simp add: calculate_title_score_def title_step_eq)
next
  assume a: "lower other \<noteq> lower t \<and> occurs_in (lower t) (lower other)
         \<and> \<not> occurs_in ('' '' @ lower t @ '' '') ('' '' @ lower other @ '' '')"
  then have "other \<noteq> []" using lower_Nil_iff [of t] by (auto simp: occurs_in_def lower_def)
  then show "calculate_title_score [t] other = 2"
    using a by (simp add: calculate_title_score_def title_step_eq field_match_spec_def)
qed

text \<open>The scenario of the specification: the title \<open>API\<close> against the query term
  \<open>api\<close>, and a title that holds the term only inside another word.\<close>

theorem title_score_is_field_match_witness:
  "[] \<notin> set [''api'']
   \<and> calculate_title_score [''api''] ''API'' = 10
   \<and> calculate_title_score [''api''] ''Rapid'' = 2"
proof -
  have h: "[] \<notin> set [''api'']" by simp
  have l1: "lower ''API'' = lower ''api''" by (simp add: lower_def lower_char_def)
  have l2: "lower ''Rapid'' \<noteq> lower ''api''" by (simp add: lower_def)
  have o1: "occurs_in (lower ''api'') (lower ''Rapid'')"
    unfolding py_in_iff [symmetric] by (simp add: lower_def lower_char_def)
  have o2: "\<not> occurs_in ('' '' @ lower ''api'' @ '' '') ('' '' @ lower ''Rapid'' @ '' '')"
    unfolding py_in_iff [symmetric] by (simp add: lower_def lower_char_def)
  show ?thesis
    using title_score_is_field_match [OF h, of "''API''" "''api''" "''Rapid''"] h l1 l2 o1 o2
    by simp
qed

text \<open>
  Claim C10. \<open>update_weights\<close> checks no weight name: every key of the map it is
  given, documented or not, is in the map that \<open>get_weights\<close> returns afterwards,
  with the given value, and every key that the update does not name keeps its value.
  The function has no error result: it is total.
\<close>

theorem update_weights_unvalidated:
  "(\<forall>k v. new_weights k = Some v \<longrightarrow> get_weights (update_weights ws new_weights) k = Some v)
   \<and> (\<forall>k. new_weights k = None \<longrightarrow> get_weights (update_weights ws new_weights) k = get_weights ws k)"
  by (simp add: update_weights_def get_weights_def map_add_def)

text \<open>A key outside the eight documented names is stored; \<open>title_match\<close> is kept.\<close>

theorem update_weights_unvalidated_witness:
  "get_weights (update_weights init_weights [''bogus'' \<mapsto> 42]) ''bogus'' = Some 42
   \<and> get_weights (update_weights init_weights [''bogus'' \<mapsto> 42]) ''title_match''
       = get_weights init_weights ''title_match''"
  using update_weights_unvalidated [of "[''bogus'' \<mapsto> 42]" init_weights]
  by simp

text \<open>
  Claim C6 as stated gives the score 0.1 to every length below 100; the guard
  \<open>if not content_length: return 0\<close> gives the length zero the score 0.
\<close>

theorem content_length_score_zero: "calculate_content_length_score 0 \<noteq> 1 / 10"
  by (simp add: calculate_content_length_score_def)

lemma content_length_score_mid:
  "100 \<le> L \<Longrightarrow> L \<le> 10000 \<Longrightarrow>
   calculate_content_length_score L = exp (- (real_of_int (L - 1500))\<^sup>2 / (2 * 750\<^sup>2))"
  by (simp add: calculate_content_length_score_def Let_def)

text \<open>
  Claim C6, amended. The length zero has the score 0. For every positive content length
  L the score is 0.1 if L < 100, 0.3 if L > 10000, and otherwise the Gaussian bump of the
  specification; it is exactly 1 at L = 1500, and within [100, 10000] a length farther
  from 1500 has a strictly smaller score.
\<close>

theorem content_length_score_cases:
  "calculate_content_length_score 0 = 0
   \<and> (0 < L \<longrightarrow> calculate_content_length_score L =
      (if L < 100 then 1 / 10 else if L > 10000 then 3 / 10
       else exp (- (real_of_int (L - 1500))\<^sup>2 / (2 * 750\<^sup>2))))
   \<and> calculate_content_length_score 1500 = 1
   \<and> (100 \<le> a \<and> a \<le> 10000 \<and> 100 \<le> b \<and> b \<le> 10000 \<and> \<bar>a - 1500\<bar> < \<bar>b - 1500\<bar>
       \<longrightarrow> calculate_content_length_score b < calculate_content_length_score a)"
proof (intro conjI impI)
  show "calculate_content_length_score 0 = 0"
    by (simp add: calculate_content_length_score_def)
next
  assume "0 < L"
  then show "calculate_content_length_score L =
      (if L < 100 then 1 / 10 else if L > 10000 then 3 / 10
       else exp (- (real_of_int (L - 1500))\<^sup>2 / (2 * 750\<^sup>2)))"
    by (simp add: calculate_content_length_score_def Let_def)
next
  show "calculate_content_length_score 1500 = 1"
    by (simp add: calculate_content_length_score_def)
next
  assume h: "100 \<le> a \<and> a \<le> 10000 \<and> 100 \<le> b \<and> b \<le> 10000 \<and> \<bar>a - 1500\<bar> < \<bar>b - 1500\<bar>"
  then have "\<bar>real_of_int (a - 1500)\<bar> < \<bar>real_of_int (b - 1500)\<bar>" by linarith
  then have "\<bar>real_of_int (a - 1500)\<bar>\<^sup>2 < \<bar>real_of_int (b - 1500)\<bar>\<^sup>2"
    by (intro power_strict_mono) simp_all
  then have "(real_of_int (a - 1500))\<^sup>2 < (real_of_int (b - 1500))\<^sup>2"
    by (simp only: power2_abs)
  then have "- (real_of_int (b - 1500))\<^sup>2 / (2 * 750\<^sup>2) < - (real_of_int (a - 1500))\<^sup>2 / (2 * 750\<^sup>2)"
    by (simp add: divide_strict_right_mono)
  then show "calculate_content_length_score b < calculate_content_length_score a"
    using h by (simp only: content_length_score_mid exp_less_cancel_iff)
qed

theorem content_length_score_cases_witness:
  "(0::int) < 50 \<and> calculate_content_length_score 0 = 0
   \<and> calculate_content_length_score 50 = 1 / 10
   \<and> calculate_content_length_score 2000 < calculate_content_length_score 1400"
  using content_length_score_cases [of 50 1400 2000] by simp











section \<open>Properties of the job scheduler\<close>

lemma digit_char_props:
  "is_digit (digit_char d) \<and> \<not> c_isspace (digit_char d) \<and> digit_char d \<noteq> CHR ''-''
   \<and> digit_char d \<noteq> CHR ''+'' \<and> digit_char d \<noteq> CHR ''_'' \<and> digit_value (digit_char d) = d mod 10"
proof -
  have "d mod 10 < 10" by simp
  then consider "d mod 10 = 0" | "d mod 10 = 1" | "d mod 10 = 2" | "d mod 10 = 3" | "d mod 10 = 4"
    | "d mod 10 = 5" | "d mod 10 = 6" | "d mod 10 = 7" | "d mod 10 = 8" | "d mod 10 = 9"
    by atomize_elim arith
  then show ?thesis
    by cases (simp_all add: digit_char_def is_digit_def c_isspace_def digit_value_def)
qed

lemma strip_pad2: "int_strip (pad2 n) = pad2 n"
  by (simp add: int_strip_def pad2_def digit_char_props)

lemma digits_pad2:
  assumes "n < 100"
  shows "10 * (n div 10 mod 10) + n mod 10 = (n::nat)"
proof -
  have "n div 10 < 10" using assms by (simp add: div_less_iff_less_mult)
  then have "n div 10 mod 10 = n div 10" by simp
  then show ?thesis by simp
qed

lemma filter_pad2: "filter (\<lambda>c. c \<noteq> CHR ''_'') (pad2 n) = pad2 n"
  by (simp add: pad2_def digit_char_props)

lemma digits_to_nat_pad2: "digits_to_nat (pad2 n) = 10 * (n div 10 mod 10) + n mod 10"
  by (simp add: pad2_def digit_char_props digits_to_nat_def)

lemma digits_ok_pad2: "digits_ok (pad2 n)"
  by (simp add: pad2_def digit_char_props)

lemma hd_pad2: "hd (pad2 n) \<noteq> CHR ''-''" "hd (pad2 n) \<noteq> CHR ''+''" "pad2 n \<noteq> []"
  by (simp_all add: pad2_def digit_char_props)

lemma py_int_pad2:
  assumes "n < 100"
  shows "py_int (pad2 n) = Inr (int n)"
proof -
  have "digits_to_nat (pad2 n) = n"
    using digits_pad2 [OF assms] by (simp only: digits_to_nat_pad2)
  then show ?thesis
    using digits_ok_pad2 [of n] hd_pad2 [of n]
    by (simp add: py_int_def strip_pad2 filter_pad2)
qed

lemma daily_next_run_hhmm:
  assumes "h < 24" and "m < 60" and "add_one_day now = Inr tomorrow"
  shows "daily_next_run now (pad2 h @ '':'' @ pad2 m)
         = Inr (tomorrow\<lparr>dt_hour := h, dt_minute := m, dt_second := 0, dt_microsecond := 0\<rparr>)"
proof -
  have t: "take 2 (pad2 h @ '':'' @ pad2 m) = pad2 h" by (simp add: pad2_def)
  have d: "drop 3 (pad2 h @ '':'' @ pad2 m) = pad2 m" by (simp add: pad2_def)
  have ph: "py_int (pad2 h) = Inr (int h)" using assms(1) by (intro py_int_pad2) simp
  have pm: "py_int (pad2 m) = Inr (int m)" using assms(2) by (intro py_int_pad2) simp
  show ?thesis
    unfolding daily_next_run_def t d ph pm assms(3) and_then_def
    using assms(1,2) by (simp add: replace_time_def)
qed

lemma find_update_job_status:
  "find (\<lambda>j. job_id j = jid) jobs = Some job \<Longrightarrow>
   find (\<lambda>j. job_id j = jid) (update_job_status now jobs jid status last_run next_run)
     = Some (update_job now status last_run next_run job)"
proof (induction jobs)
  case Nil
  then show ?case by simp
next
  case (Cons j js)
  show ?case
  proof (cases "job_id j = jid")
    case True
    then have "job = j" using Cons.prems by simp
    moreover have "job_id (update_job now status last_run next_run j) = job_id j"
      by (simp add: update_job_def Let_def split: sum.splits)
    ultimately show ?thesis using True by simp
  next
    case False
    then show ?thesis using Cons by simp
  qed
qed

text \<open>
  Claim C8. For a daily job whose schedule time is written \<open>HH:MM\<close> (hour below 24,
  minute below 60), \<open>update_job_status\<close> with the status \<open>completed\<close> and no
  explicit next run sets the job's next run to the ISO form of the day after now with the
  time of day replaced by the schedule time, and resets the status to \<open>scheduled\<close>.
  The job is the one the loop reaches (the first with the id), and now is not the last
  day that a datetime can hold.
\<close>

theorem daily_job_completed_next_run:
  assumes "find (\<lambda>j. job_id j = jid) jobs = Some job"
    and "job_schedule_type job = ''daily''"
    and "job_schedule_time job = pad2 h @ '':'' @ pad2 m" and "h < 24" and "m < 60"
    and "\<not> truthy next_run"
    and "add_one_day now = Inr tomorrow"
  shows "find (\<lambda>j. job_id j = jid)
           (update_job_status now jobs jid ''completed'' last_run next_run)
         = Some (job\<lparr>job_last_run := (if truthy last_run then last_run else job_last_run job),
                     job_next_run := Some (isoformat (tomorrow\<lparr>dt_hour := h, dt_minute := m,
                                              dt_second := 0, dt_microsecond := 0\<rparr>)),
                     job_status := ''scheduled''\<rparr>)"
proof -
  have n: "daily_next_run now (job_schedule_time job)
         = Inr (tomorrow\<lparr>dt_hour := h, dt_minute := m, dt_second := 0, dt_microsecond := 0\<rparr>)"
    unfolding assms(3) using assms(4,5,7) by (rule daily_next_run_hhmm)
  have "update_job now ''completed'' last_run next_run job
      = job\<lparr>job_last_run := (if truthy last_run then last_run else job_last_run job),
            job_next_run := Some (isoformat (tomorrow\<lparr>dt_hour := h, dt_minute := m,
                                     dt_second := 0, dt_microsecond := 0\<rparr>)),
            job_status := ''scheduled''\<rparr>"
    using assms(2,6) n by (simp add: update_job_def Let_def)
  then show ?thesis using find_update_job_status [OF assms(1)] by simp
qed

text \<open>The scenario: completing at 2024-01-01T10:00:00 with the schedule time \<open>02:00\<close>
  gives the next run 2024-01-02T02:00:00 and the status \<open>scheduled\<close>.\<close>

theorem daily_job_completed_next_run_witness:
  "find (\<lambda>j. job_id j = 1) (update_job_status morning_2024 [nightly_job] 1 ''completed'' None None)
   = Some (nightly_job\<lparr>job_next_run := Some ''2024-01-02T02:00:00'', job_status := ''scheduled''\<rparr>)"
proof -
  have f: "find (\<lambda>j. job_id j = 1) [nightly_job] = Some nightly_job"
    by (simp add: nightly_job_def)
  have t: "job_schedule_type nightly_job = ''daily''" by (simp add: nightly_job_def)
  have s: "job_schedule_time nightly_job = pad2 2 @ '':'' @ pad2 0"
    by (simp add: nightly_job_def pad2_def digit_char_def)
  have n: "\<not> truthy None" by (simp add: truthy_def)
  have d: "add_one_day morning_2024 = Inr (morning_2024\<lparr>dt_day := 2\<rparr>)"
    by (simp add: add_one_day_def morning_2024_def days_in_month_def)
  have i: "isoformat (morning_2024\<lparr>dt_day := 2, dt_hour := 2, dt_minute := 0, dt_second := 0,
             dt_microsecond := 0\<rparr>) = ''2024-01-02T02:00:00''"
    by (simp add: isoformat_def morning_2024_def pad2_def pad4_def digit_char_def)
  show ?thesis
    using daily_job_completed_next_run [OF f t s _ _ n d, of None] i
    by (simp add: truthy_def nightly_job_def)
qed

text \<open>
  Claim C4 says that job ids are unique and that each new id is greater than every id
  assigned before. \<open>add_crawl_job\<close> takes the length of the list plus one: after two
  jobs are added and the first is removed, the third job gets the id 2 again, which the
  second job still has.
\<close>

theorem job_id_reused_after_remove:
  "(let (id1, jobs1) = add_crawl_job morning_2024 [] ''first'' [''https://a.test''] ''daily'' ''02:00'' 100 3;
        (id2, jobs2) = add_crawl_job morning_2024 jobs1 ''second'' [''https://b.test''] ''daily'' ''02:00'' 100 3;
        jobs3 = remove_crawl_job jobs2 id1;
        (id3, jobs4) = add_crawl_job morning_2024 jobs3 ''third'' [''https://c.test''] ''daily'' ''02:00'' 100 3
    in (id1, id2, id3, map job_id jobs4, map job_name jobs4))
   = (1, 2, 2, [2, 2], [''second'', ''third''])"
  by (simp add: add_crawl_job_def remove_crawl_job_def)


section \<open>Properties of the index store\<close>

lemma add_document_added:
  assumes "\<not> w_in_doc w"
    and "\<forall>u. pp_url p = Some u \<longrightarrow> \<not> lib_add_raises lib (page_record u p)"
  shows "add_document lib w p = w\<lparr>w_added := w_added w @ added_records lib [p]\<rparr>"
  using assms
  by (simp add: add_document_def try_add_document_def writer_add_document_def
      added_records_def List.map_filter_simps split: option.splits)

lemma added_records_Cons:
  "added_records lib (p # ps) = added_records lib [p] @ added_records lib ps"
  by (simp add: added_records_def List.map_filter_simps split: option.splits)

lemma foldl_add_document:
  assumes "\<not> w_in_doc w"
    and "\<forall>p\<in>set ps. \<forall>u. pp_url p = Some u \<longrightarrow> \<not> lib_add_raises lib (page_record u p)"
  shows "foldl (add_document lib) w ps = w\<lparr>w_added := w_added w @ added_records lib ps\<rparr>"
  using assms
proof (induction ps arbitrary: w)
  case Nil
  show ?case by (simp add: added_records_def List.map_filter_simps)
next
  case (Cons p ps)
  have a: "add_document lib w p = w\<lparr>w_added := w_added w @ added_records lib [p]\<rparr>"
    using Cons.prems by (intro add_document_added) simp_all
  then have n: "\<not> w_in_doc (add_document lib w p)" using Cons.prems(1) by simp
  have "foldl (add_document lib) w (p # ps)
        = foldl (add_document lib) (add_document lib w p) ps" by simp
  also have "\<dots> = (add_document lib w p)
        \<lparr>w_added := w_added (add_document lib w p) @ added_records lib ps\<rparr>"
    using n Cons.prems(2) by (intro Cons.IH) simp_all
  also have "\<dots> = w\<lparr>w_added := w_added w @ added_records lib (p # ps)\<rparr>"
    by (simp add: a added_records_Cons [of lib p ps])
  finally show ?case .
qed

text \<open>
  Claim C3 says that a batch is rolled back, and the error raised, when adding any of its
  documents fails. \<open>add_document\<close> catches every exception of the add and only logs
  it: here the first page has no URL, its add raises KeyError, and the batch is committed
  with the second page and without an error.
\<close>

theorem index_pages_partial_batch:
  "fst (try_add_document quiet_library new_writer page_no_url) = Some KeyError
   \<and> index_pages quiet_library (Index []) [page_no_url, page_v1]
       = (None, Index [page_record ''https://a.test'' page_v1])"
  by (simp add: index_pages_def add_document_def try_add_document_def writer_add_document_def
      new_writer_def quiet_library_def page_no_url_def page_v1_def)

text \<open>
  Claim C3, amended. In a batch none of whose documents the index writer itself raises
  on, a document whose add fails before the writer is reached (a page without URL, a
  crawl time that does not convert) is logged and skipped: the batch is committed as one
  transaction that appends exactly the records of the other documents, in order, and no
  error propagates. The batch is rolled back as a whole, the index left unchanged and the
  error raised, only when opening the writer or the commit itself fails. What follows an
  exception raised inside the writer is left out of the statement.
\<close>

theorem index_pages_skips_failed_documents:
  assumes "\<forall>p\<in>set parsed_pages. \<forall>u. pp_url p = Some u \<longrightarrow>
             \<not> lib_add_raises lib (page_record u p)"
  shows "index_pages lib (Index rs) parsed_pages =
     (if lib_open_raises lib then (Some LockError, Index rs)
      else if lib_commit_raises lib then (Some WriterError, Index rs)
      else (None, Index (rs @ added_records lib parsed_pages)))"
proof -
  have "\<not> w_in_doc new_writer" by (simp add: new_writer_def)
  then have "foldl (add_document lib) new_writer parsed_pages
      = new_writer\<lparr>w_added := w_added new_writer @ added_records lib parsed_pages\<rparr>"
    using assms by (rule foldl_add_document)
  then show ?thesis by (simp add: index_pages_def new_writer_def)
qed

text \<open>A commit that fails leaves the index as it was; a batch in which one crawl time
  does not convert and one page has no URL commits the third page alone.\<close>

theorem index_pages_skips_failed_documents_witness:
  "index_pages (quiet_library\<lparr>lib_commit_raises := True\<rparr>)
       (Index [page_record ''https://a.test'' page_v1]) [page_v2]
     = (Some WriterError, Index [page_record ''https://a.test'' page_v1])
   \<and> index_pages (quiet_library\<lparr>lib_timestamp_raises := (\<lambda>t. t = 200)\<rparr>)
       (Index []) [page_v1, page_v2, page_no_url]
     = (None, Index [page_record ''https://a.test'' page_v1])"
proof -
  have h1: "\<forall>p\<in>set [page_v2]. \<forall>u. pp_url p = Some u \<longrightarrow>
      \<not> lib_add_raises (quiet_library\<lparr>lib_commit_raises := True\<rparr>) (page_record u p)"
    by (simp add: quiet_library_def)
  have h2: "\<forall>p\<in>set [page_v1, page_v2, page_no_url]. \<forall>u. pp_url p = Some u \<longrightarrow>
      \<not> lib_add_raises (quiet_library\<lparr>lib_timestamp_raises := (\<lambda>t. t = 200)\<rparr>)
          (page_record u p)"
    by (simp add: quiet_library_def)
  show ?thesis
    using index_pages_skips_failed_documents [OF h1, of "[page_record ''https://a.test'' page_v1]"]
      index_pages_skips_failed_documents [OF h2, of "[]"]
    by (simp add: added_records_def List.map_filter_simps quiet_library_def
        page_v1_def page_v2_def page_no_url_def)
qed

text \<open>
  An exception inside the writer is caught like any other, but it leaves the writer
  inside the document: the later pages of the batch are not stored either, and the commit
  leaves an index that cannot be read. Here the writer raises on the second of three
  pages.
\<close>

lemma index_pages_after_writer_failure:
  "foldl (add_document (quiet_library\<lparr>lib_add_raises := (\<lambda>r. rec_content r = ''second text'')\<rparr>))
     new_writer [page_v1, page_v2, page_v1]
   = \<lparr>w_deleted = [], w_added = [page_record ''https://a.test'' page_v1], w_in_doc = True\<rparr>
   \<and> index_pages (quiet_library\<lparr>lib_add_raises := (\<lambda>r. rec_content r = ''second text'')\<rparr>)
       (Index []) [page_v1, page_v2, page_v1]
     = (None, Unreadable)"
  by (simp add: index_pages_def add_document_def try_add_document_def writer_add_document_def
      new_writer_def quiet_library_def page_record_def page_v1_def page_v2_def)

text \<open>
  Claim C1 says that indexing a document again, by the single upsert or in a bulk batch,
  leaves one record for its URL. \<open>index_pages\<close> only adds: indexing a second version
  of a page whose URL is in the index leaves two records for the URL.
\<close>

theorem index_pages_duplicates_url:
  "(let (e1, idx1) = index_pages quiet_library (Index []) [page_v1];
        (e2, idx2) = index_pages quiet_library idx1 [page_v2]
    in (e1, e2, idx2,
        case idx2 of Index rs \<Rightarrow> (map rec_url rs, map rec_content rs) | Unreadable \<Rightarrow> ([], [])))
   = (None, None,
      Index [page_record ''https://a.test'' page_v1, page_record ''https://a.test'' page_v2],
      [''https://a.test'', ''https://a.test''], [''first text'', ''second text''])"
  by (simp add: index_pages_def add_document_def try_add_document_def writer_add_document_def
      new_writer_def quiet_library_def page_record_def page_v1_def page_v2_def)

text \<open>The single upsert does delete before it inserts: when nothing raises,
  \<open>update_document\<close> leaves exactly one record for the URL.\<close>

lemma update_document_one_record:
  assumes "pp_url parsed_page = Some u"
  shows "update_document quiet_library (Index rs) parsed_page
         = (None, Index (filter (\<lambda>r. rec_url r \<noteq> u) rs @ [page_record u parsed_page]))"
    and "length (filter (\<lambda>r. rec_url r = u)
           (filter (\<lambda>r. rec_url r \<noteq> u) rs @ [page_record u parsed_page])) = 1"
  using assms
  by (simp_all add: update_document_def add_document_def try_add_document_def
      writer_add_document_def new_writer_def writer_delete_by_term_def quiet_library_def
      page_record_def)

section \<open>Properties of the fetcher and the facade\<close>

text \<open>Three crawls of the small site, evaluated: by a new engine's crawler, by the same
  crawler again, and by the same crawler under smaller limits.\<close>

lemma first_crawl:
  "crawl small_web ((se_crawler (SearchEngine idx jobs))\<lparr>max_pages := 5, max_depth := 2\<rparr>)
     [''https://a.test'']
   = ([page_a, page_b, page_d], crawler_after_run)"
  by (simp add: crawl_def crawl_loop.simps crawl_page_def SearchEngine_def WebCrawler_def
      small_web_def page_a_def page_b_def page_d_def crawler_after_run_def insert_commute)

lemma second_crawl:
  "crawl small_web (crawler_after_run\<lparr>max_pages := 5, max_depth := 2\<rparr>) [''https://a.test'']
   = ([page_a, page_b, page_d], crawler_after_run)"
  by (simp add: crawl_def crawl_loop.simps crawl_page_def crawler_after_run_def)

lemma capped_crawl:
  "crawl small_web (crawler_after_run\<lparr>max_pages := 2, max_depth := 0\<rparr>) [''https://c.test'']
   = ([page_a, page_b, page_d],
      crawler_after_run\<lparr>max_pages := 2, max_depth := 0, url_queue := [(''https://c.test'', 0)]\<rparr>)"
  by (simp add: crawl_def crawl_loop.simps crawl_page_def crawler_after_run_def)

text \<open>
  The pages that a crawl on a freshly made crawler collects are safe: \<open>crawl_page\<close>
  keeps the safety predicate, so does the loop, and the fresh crawler satisfies it.
\<close>

lemma crawl_page_limits:
  "max_pages (crawl_page web c url depth) = max_pages c
   \<and> max_depth (crawl_page web c url depth) = max_depth c"
  by (simp add: crawl_page_def split: fetch_result.splits)

lemma crawl_page_safe:
  assumes "crawl_safe c"
  shows "crawl_safe (crawl_page web c url depth)"
  using assms
  by (auto simp: crawl_safe_def crawl_page_def list_all_iff split: fetch_result.splits)

lemma crawl_loop_safe:
  "crawl_safe c \<Longrightarrow>
   crawl_safe (crawl_loop web c) \<and> max_pages (crawl_loop web c) = max_pages c
   \<and> max_depth (crawl_loop web c) = max_depth c"
proof (induction web c rule: crawl_loop.induct)
  case (1 web c)
  show ?case
  proof (cases "url_queue c")
    case Nil
    then show ?thesis using "1.prems" by (simp add: crawl_loop.simps)
  next
    case (Cons a rest)
    obtain url depth where a: "a = (url, depth)" by (cases a)
    show ?thesis
    proof (cases "length (crawled_pages c) < max_pages c")
      case False
      then show ?thesis using Cons a "1.prems" by (simp add: crawl_loop.simps)
    next
      case True
      let ?c' = "if url \<notin> visited_urls c then crawl_page web (c\<lparr>url_queue := rest\<rparr>) url depth
                 else c\<lparr>url_queue := rest\<rparr>"
      have q: "crawl_safe (c\<lparr>url_queue := rest\<rparr>)" using "1.prems" by (simp add: crawl_safe_def)
      have s: "crawl_safe ?c'" using q crawl_page_safe [OF q] by simp
      have l: "max_pages ?c' = max_pages c \<and> max_depth ?c' = max_depth c"
        by (simp add: crawl_page_limits)
      have e: "crawl_loop web c = crawl_loop web ?c'"
        using Cons a True by (subst crawl_loop.simps) simp
      have "crawl_safe (crawl_loop web ?c') \<and> max_pages (crawl_loop web ?c') = max_pages ?c'
            \<and> max_depth (crawl_loop web ?c') = max_depth ?c'"
        using "1.IH" [OF Cons a [symmetric] True s] .
      then show ?thesis using e l by simp
    qed
  qed
qed

lemma crawl_fresh_safe:
  assumes "crawl web (WebCrawler mp dl md) seed_urls = (pages, c')"
  shows "distinct (map pd_url pages) \<and> length pages \<le> mp \<and> list_all (\<lambda>p. pd_depth p \<le> md) pages"
proof -
  let ?c0 = "(WebCrawler mp dl md)\<lparr>url_queue := url_queue (WebCrawler mp dl md) @ map (\<lambda>url. (url, 0)) seed_urls\<rparr>"
  have "crawl_safe ?c0" by (simp add: crawl_safe_def WebCrawler_def)
  then have "crawl_safe (crawl_loop web ?c0) \<and> max_pages (crawl_loop web ?c0) = max_pages ?c0
     \<and> max_depth (crawl_loop web ?c0) = max_depth ?c0"
    by (rule crawl_loop_safe)
  moreover have "pages = crawled_pages (crawl_loop web ?c0)"
    using assms by (auto simp: crawl_def Let_def)
  moreover have "max_pages ?c0 = mp \<and> max_depth ?c0 = md" by (simp add: WebCrawler_def)
  ultimately show ?thesis unfolding crawl_safe_def by metis
qed



text \<open>A URL is marked visited only when its page arrives: one that fails is requested
  again when the queue holds it twice, also within one run of a fresh crawler.\<close>

lemma failed_url_requested_again:
  "crawl small_web (WebCrawler 5 0 2) [''https://x.test'', ''https://x.test'']
   = ([], (WebCrawler 5 0 2)\<lparr>requests_made := 2\<rparr>)"
  by (simp add: crawl_def crawl_loop.simps crawl_page_def WebCrawler_def small_web_def)

lemma isoformat_not_empty: "isoformat d \<noteq> []"
  by (simp add: isoformat_def pad4_def)

lemma crawler_after_run_fields:
  "visited_urls crawler_after_run = {''https://a.test'', ''https://a.test/b'', ''https://a.test/d''}"
  "requests_made crawler_after_run = 3"
  "crawled_pages crawler_after_run = [page_a, page_b, page_d]"
  by (simp_all add: crawler_after_run_def)

lemma SearchEngine_fields:
  "se_index (SearchEngine idx jobs) = idx" "se_jobs (SearchEngine idx jobs) = jobs"
  by (simp_all add: SearchEngine_def)

lemmas facade_eval = crawl_and_index_def find_or_create_manual_job_def add_crawl_job_def
  update_job_def truthy_def SearchEngine_fields parse_pages_def parse_page_def
  List.map_filter_simps index_pages_def add_document_def try_add_document_def
  writer_add_document_def new_writer_def quiet_library_def small_env_def page_a_def page_b_def
  page_d_def Let_def isoformat_not_empty

text \<open>
  Claim C2 says that every crawl run, also a later \<open>crawl_and_index\<close> call of one
  engine, starts with an empty visited set, fetches again the URLs of earlier runs and
  returns only pages it fetched itself. The engine makes its crawler once and
  \<open>crawl\<close> never clears it: the second of two equal calls starts with the three URLs
  of the first run visited, makes no request at all (the count stays at 3), and returns
  the three pages of the first run.
\<close>

theorem second_run_fetches_nothing:
  "(let (ok1, se1) = crawl_and_index small_env (SearchEngine (Index []) []) [''https://a.test''] 5 2;
        (ok2, se2) = crawl_and_index small_env se1 [''https://a.test''] 5 2
    in (ok1, ok2, visited_urls (se_crawler se1), requests_made (se_crawler se1),
        requests_made (se_crawler se2), map pd_url (crawled_pages (se_crawler se2))))
   = (True, True, {''https://a.test'', ''https://a.test/b'', ''https://a.test/d''}, 3, 3,
      [''https://a.test'', ''https://a.test/b'', ''https://a.test/d''])"
  by (simp add: facade_eval first_crawl second_crawl crawler_after_run_fields)

text \<open>
  Claim C7 says that no crawl run fetches a URL twice, collects more than \<open>max_pages\<close>
  pages or returns a page deeper than \<open>max_depth\<close>. On a fresh crawler the collected
  pages do have distinct URLs and keep both limits (\<open>crawl_fresh_safe\<close>), though a URL
  whose fetch fails is requested again (\<open>failed_url_requested_again\<close>). A second
  \<open>crawl_and_index\<close> call of one engine with the limits 2 and 0 returns the three pages
  of the first run, two of them of depth 1.
\<close>

theorem second_run_exceeds_limits:
  "(let (ok1, se1) = crawl_and_index small_env (SearchEngine (Index []) []) [''https://a.test''] 5 2;
        (pages, c) = crawl (env_web small_env) ((se_crawler se1)\<lparr>max_pages := 2, max_depth := 0\<rparr>)
                       [''https://c.test''];
        (ok2, se2) = crawl_and_index small_env se1 [''https://c.test''] 2 0
    in (se_crawler se2 = c, max_pages c, max_depth c, length pages, map pd_depth pages))
   = (True, 2, 0, 3, [0, 1, 1])"
  by (simp add: facade_eval first_crawl capped_crawl crawler_after_run_fields)


end
